theory Spec2Isabelle
  imports Main
begin

section \<open>Exceptions and messages of \<open>pulp_cookbook/app/viewsets.py\<close>\<close>

text \<open>
  A \<open>serializers.ValidationError\<close> carries a detail: either a plain message (a non-field
  error) or a dict from field name to message, kept here as an association list.
  \<open>Http404\<close> is what \<open>get_object\<close> raises for an unknown publisher, and
  \<open>AttributeError\<close> is what Python raises on \<open>None.repository\<close>.
  The messages are the source's literals (\<open>gettext\<close> is the identity on them).
\<close>

datatype detail = Message string | Fields "(string \<times> string) list"

datatype exc = ValidationError detail | Http404 | AttributeError

definition quote :: char where
  "quote = CHR 0x27"

definition msg_neither :: string where
  "msg_neither = ''Either the '' @ [quote] @ ''repository'' @ [quote] @ '' or '' @ [quote]
     @ ''repository_version'' @ [quote] @ '' need to be specified''"

definition msg_both :: string where
  "msg_both = ''Either the '' @ [quote] @ ''repository'' @ [quote] @ '' or '' @ [quote]
     @ ''repository_version'' @ [quote] @ '' need to be specified but not both.''"

definition msg_no_version :: string where
  "msg_no_version = ''Repository has no version available to publish''"

definition msg_required :: string where
  "msg_required = ''This field is required''"

definition msg_no_metadata :: string where
  "msg_no_metadata = ''No metadata.json found in cookbook tar''"

definition msg_version :: string where
  "msg_version = ''version does not correspond to version in cookbook tar''"

section \<open>Model objects\<close>

text \<open>
  The model instances the view sets handle. Primary keys are integers. A repository
  version knows its owning repository (\<open>repository_version.repository\<close>).
\<close>

record Repository =
  repo_pk :: int

record RepositoryVersion =
  rv_pk :: int
  rv_repository :: Repository
  rv_number :: nat

record CookbookPublisher =
  publisher_pk :: int

record Artifact =
  artifact_pk :: int
  file_name :: string

text \<open>
  What \<open>CookbookMetadata.from_cookbook_file\<close> extracts from the archive, with the
  attributes \<open>create\<close> reads: \<open>version\<close> and \<open>dependencies\<close>.
\<close>

record CookbookMetadata =
  md_version :: string
  md_dependencies :: "(string \<times> string) list"

record CookbookPackageContent =
  content_name :: string
  content_version :: string
  content_dependencies :: "(string \<times> string) list"

section \<open>The publish request serializer\<close>

text \<open>
  The validated data of \<open>_RepositoryPublishURLSerializer\<close>: a dict with at most the keys
  \<open>repository\<close> and \<open>repository_version\<close>, a key being absent when the field is
  \<open>None\<close> here. Both fields are declared \<open>required=False\<close> and do not allow null, so a
  key that is present holds a model instance.
\<close>

record publish_data =
  repository :: "Repository option"
  repository_version :: "RepositoryVersion option"

text \<open>
  \<open>new_data.update(data)\<close>: every key of \<open>data\<close> overrides the one of \<open>new_data\<close>.
\<close>

definition dict_update :: "publish_data \<Rightarrow> publish_data \<Rightarrow> publish_data" where
  "dict_update new_data data =
     \<lparr>repository = (case repository data of Some r \<Rightarrow> Some r | None \<Rightarrow> repository new_data),
      repository_version =
        (case repository_version data of Some v \<Rightarrow> Some v | None \<Rightarrow> repository_version new_data)\<rparr>"

text \<open>
  Modelled from the spec: \<open>RepositoryVersion.latest\<close> (of pulpcore, which
  \<open>viewsets.py\<close> imports). A repository has zero or more ordered versions, given by the store
  \<open>versions\<close>; the latest is the last of them and there is none when the list is empty.
\<close>

definition RepositoryVersion_latest ::
  "(Repository \<Rightarrow> RepositoryVersion list) \<Rightarrow> Repository \<Rightarrow> RepositoryVersion option" where
  "RepositoryVersion_latest versions repo =
     (case versions repo of [] \<Rightarrow> None | v # vs \<Rightarrow> Some (last (v # vs)))"

text \<open>
  \<open>_RepositoryPublishURLSerializer.validate\<close>. \<open>data.get(key)\<close> is \<open>None\<close> for an absent
  key and a model instance otherwise; a model instance is truthy, so \<open>not repository\<close>
  holds exactly when the key is absent. The four cases are the branches of the
  \<open>if\<close>/\<open>elif\<close> chain and the final \<open>raise\<close>, in the source's order.
\<close>

definition validate ::
  "(Repository \<Rightarrow> RepositoryVersion list) \<Rightarrow> publish_data \<Rightarrow> exc + publish_data" where
  "validate versions data =
     (case (repository data, repository_version data) of
        (None, None) \<Rightarrow> Inl (ValidationError (Message msg_neither))
      | (None, Some rv) \<Rightarrow> Inr data
      | (Some repo, None) \<Rightarrow>
          (case RepositoryVersion_latest versions repo of
             Some version \<Rightarrow>
               Inr (dict_update \<lparr>repository = None, repository_version = Some version\<rparr> data)
           | None \<Rightarrow> Inl (ValidationError (Message msg_no_version)))
      | (Some repo, Some rv) \<Rightarrow> Inl (ValidationError (Message msg_both)))"

section \<open>Publishing\<close>

text \<open>Python's \<open>str\<close> on an integer: its decimal digits, with a sign when negative.\<close>

definition digit :: "nat \<Rightarrow> char" where
  "digit d = char_of (48 + d)"

function str_nat :: "nat \<Rightarrow> string" where
  "str_nat n = (if n < 10 then [digit n] else str_nat (n div 10) @ [digit (n mod 10)])"
  by pat_completeness auto
termination
  by (relation "measure (\<lambda>n. n)") auto

definition str :: "int \<Rightarrow> string" where
  "str i = (if i < 0 then CHR ''-'' # str_nat (nat (- i)) else str_nat (nat i))"

text \<open>
  A queued call of \<open>tasks.publish\<close>: the resources it reserves and its keyword arguments.
  \<open>apply_async_with_reservation\<close> appends it to the task queue and returns a handle to
  it, which \<open>OperationPostponedResponse\<close> wraps.
\<close>

datatype resource = RepositoryResource Repository | PublisherResource CookbookPublisher

record task =
  reservations :: "resource list"
  kwargs :: "(string \<times> string) list"

datatype response = OperationPostponedResponse task

definition apply_async_with_reservation ::
  "resource list \<Rightarrow> (string \<times> string) list \<Rightarrow> task list \<Rightarrow> task \<times> task list" where
  "apply_async_with_reservation rs kw queue =
     (let t = \<lparr>reservations = rs, kwargs = kw\<rparr> in (t, queue @ [t]))"

text \<open>
  \<open>serializer.is_valid(raise_exception=True)\<close> of the publish serializer: the fields are
  resolved from the request's URIs by the framework (\<open>to_internal_value\<close>, a parameter,
  which may reject the request with a validation error) and the result is passed to \<open>validate\<close>.
\<close>

definition is_valid ::
  "('r \<Rightarrow> detail + publish_data) \<Rightarrow> (Repository \<Rightarrow> RepositoryVersion list) \<Rightarrow> 'r
     \<Rightarrow> exc + publish_data" where
  "is_valid to_internal_value versions request_data =
     (case to_internal_value request_data of
        Inl errors \<Rightarrow> Inl (ValidationError errors)
      | Inr data \<Rightarrow> validate versions data)"

text \<open>
  \<open>CookbookPublisherViewSet.publish\<close>. \<open>get_object\<close> looks the publisher up by the
  \<open>pk\<close> of the URL. The result is the response or the exception raised, and the task
  queue afterwards.
\<close>

definition publish ::
  "(int \<Rightarrow> CookbookPublisher option) \<Rightarrow> ('r \<Rightarrow> detail + publish_data)
     \<Rightarrow> (Repository \<Rightarrow> RepositoryVersion list) \<Rightarrow> 'r \<Rightarrow> int \<Rightarrow> task list
     \<Rightarrow> (exc + response) \<times> task list" where
  "publish get_object to_internal_value versions request_data pk queue =
     (case get_object pk of
        None \<Rightarrow> (Inl Http404, queue)
      | Some publisher \<Rightarrow>
          (case is_valid to_internal_value versions request_data of
             Inl e \<Rightarrow> (Inl e, queue)
           | Inr validated_data \<Rightarrow>
               (case repository_version validated_data of
                  None \<Rightarrow> (Inl AttributeError, queue)
                | Some rv \<Rightarrow>
                    (let (result, queue') =
                       apply_async_with_reservation
                         [RepositoryResource (rv_repository rv), PublisherResource publisher]
                         [(''publisher_pk'', str (publisher_pk publisher)),
                          (''repository_version_pk'', str (rv_pk rv))]
                         queue
                     in (Inr (OperationPostponedResponse result), queue')))))"

section \<open>Content admission\<close>

text \<open>
  \<open>request.data\<close> is a dict from field name to the declared value.
\<close>

type_synonym request_data = "string \<rightharpoonup> string"

text \<open>
  The persistent state the admission writes: the content records and the bindings of
  content records to artifacts.
\<close>

record db =
  contents :: "CookbookPackageContent list"
  content_artifacts :: "(CookbookPackageContent \<times> Artifact) list"

text \<open>
  The collaborators of \<open>create\<close> that the view set calls and does not define:
  \<^item> \<open>get_resource\<close> resolves the artifact's URI to the stored artifact, or rejects it
    with the detail of a validation error;
  \<^item> \<open>from_cookbook_file\<close> is \<open>CookbookMetadata.from_cookbook_file\<close>, given the
    artifact's file name and the declared name; \<open>None\<close> is \<open>FileNotFoundError\<close>;
  \<^item> \<open>field_errors\<close> is the field validation of \<open>CookbookPackageContentSerializer\<close>;
  \<^item> \<open>get_success_headers\<close> computes the headers of the response.
\<close>

record collaborators =
  get_resource :: "string \<Rightarrow> detail + Artifact"
  from_cookbook_file :: "string \<Rightarrow> string \<Rightarrow> CookbookMetadata option"
  field_errors :: "request_data \<Rightarrow> detail option"
  get_success_headers :: "request_data \<Rightarrow> (string \<times> string) list"

text \<open>
  Modelled from the spec: \<open>is_valid\<close> of \<open>CookbookPackageContentSerializer\<close>
  (\<open>serializers.py\<close>, which \<open>viewsets.py\<close> imports). It rejects the data with the
  field errors, if any, and needs the fields \<open>name\<close> and \<open>version\<close>, which are the
  validated data.
\<close>

definition content_is_valid ::
  "(request_data \<Rightarrow> detail option) \<Rightarrow> request_data \<Rightarrow> exc + (string \<times> string)" where
  "content_is_valid errors data =
     (case errors data of
        Some d \<Rightarrow> Inl (ValidationError d)
      | None \<Rightarrow>
          (case data ''name'' of
             None \<Rightarrow> Inl (ValidationError (Fields [(''name'', msg_required)]))
           | Some n \<Rightarrow>
               (case data ''version'' of
                  None \<Rightarrow> Inl (ValidationError (Fields [(''version'', msg_required)]))
                | Some v \<Rightarrow> Inr (n, v))))"

text \<open>
  Modelled from the spec: \<open>save\<close> of \<open>CookbookPackageContentSerializer\<close>
  (\<open>serializers.py\<close>, which \<open>viewsets.py\<close> imports). It constructs the content record
  from the validated \<open>name\<close> and \<open>version\<close> and the \<open>dependencies\<close> it is given, and
  persists it.
\<close>

definition content_save ::
  "string \<times> string \<Rightarrow> (string \<times> string) list \<Rightarrow> db \<Rightarrow> CookbookPackageContent \<times> db" where
  "content_save validated_data deps d =
     (let content = \<lparr>content_name = fst validated_data,
                     content_version = snd validated_data,
                     content_dependencies = deps\<rparr>
      in (content, d\<lparr>contents := contents d @ [content]\<rparr>))"

text \<open>
  Modelled from the spec: the setter of \<open>content.artifact\<close> (of pulpcore, which
  \<open>viewsets.py\<close> imports) binds the artifact to the content record.
\<close>

definition set_artifact :: "CookbookPackageContent \<Rightarrow> Artifact \<Rightarrow> db \<Rightarrow> db" where
  "set_artifact content artifact d =
     d\<lparr>content_artifacts := content_artifacts d @ [(content, artifact)]\<rparr>"

record created =
  status :: nat
  body :: CookbookPackageContent
  headers :: "(string \<times> string) list"

text \<open>
  The body of \<open>CookbookPackageContentViewSet.create\<close>, statement by statement. Each
  guarded block is a case distinction on the lookup that can raise \<open>KeyError\<close>; the
  comparison of the versions is made only when the key \<open>version\<close> is present
  (\<open>except KeyError: pass\<close>), and \<open>data['version'] = metadata.version\<close> follows in
  either case.
\<close>

definition create_body ::
  "collaborators \<Rightarrow> request_data \<Rightarrow> db \<Rightarrow> (exc + created) \<times> db" where
  "create_body env data d =
     (case data ''artifact'' of
        None \<Rightarrow> (Inl (ValidationError (Fields [(''artifact'', msg_required)])), d)
      | Some uri \<Rightarrow>
     (case get_resource env uri of
        Inl errors \<Rightarrow> (Inl (ValidationError errors), d)
      | Inr artifact \<Rightarrow>
     (case data ''name'' of
        None \<Rightarrow> (Inl (ValidationError (Fields [(''name'', msg_required)])), d)
      | Some name \<Rightarrow>
     (case from_cookbook_file env (file_name artifact) name of
        None \<Rightarrow> (Inl (ValidationError (Fields [(''artifact'', msg_no_metadata)])), d)
      | Some metadata \<Rightarrow>
     (if (case data ''version'' of Some v \<Rightarrow> v \<noteq> md_version metadata | None \<Rightarrow> False)
      then (Inl (ValidationError (Fields [(''version'', msg_version)])), d)
      else
        (let data' = data(''version'' \<mapsto> md_version metadata) in
         (case content_is_valid (field_errors env) data' of
            Inl e \<Rightarrow> (Inl e, d)
          | Inr validated_data \<Rightarrow>
              (let (content, d1) = content_save validated_data (md_dependencies metadata) d;
                   d2 = set_artifact content artifact d1
               in (Inr \<lparr>status = 201, body = content,
                        headers = get_success_headers env data'\<rparr>, d2)))))))))"

text \<open>
  \<open>@transaction.atomic\<close>: when the body raises, its writes are rolled back.
\<close>

definition transaction_atomic :: "(db \<Rightarrow> (exc + 'a) \<times> db) \<Rightarrow> db \<Rightarrow> (exc + 'a) \<times> db" where
  "transaction_atomic f d =
     (case f d of
        (Inl e, d') \<Rightarrow> (Inl e, d)
      | (Inr r, d') \<Rightarrow> (Inr r, d'))"

definition create :: "collaborators \<Rightarrow> request_data \<Rightarrow> db \<Rightarrow> (exc + created) \<times> db" where
  "create env data = transaction_atomic (create_body env data)"

section \<open>Example objects\<close>

text \<open>
  A repository with three versions and one with none, a publisher, and the collaborators
  of an admission: one stored artifact whose archive holds the descriptor of the cookbook
  \<open>mycookbook\<close>, version \<open>1.2.0\<close>, depending on \<open>other >= 1.0\<close>.
\<close>

definition repo1 :: Repository where
  "repo1 = \<lparr>repo_pk = 1\<rparr>"

definition repo2 :: Repository where
  "repo2 = \<lparr>repo_pk = 2\<rparr>"

definition version1 :: RepositoryVersion where
  "version1 = \<lparr>rv_pk = 11, rv_repository = repo1, rv_number = 1\<rparr>"

definition version2 :: RepositoryVersion where
  "version2 = \<lparr>rv_pk = 12, rv_repository = repo1, rv_number = 2\<rparr>"

definition version3 :: RepositoryVersion where
  "version3 = \<lparr>rv_pk = 13, rv_repository = repo1, rv_number = 3\<rparr>"

definition example_versions :: "Repository \<Rightarrow> RepositoryVersion list" where
  "example_versions r = (if repo_pk r = 1 then [version1, version2, version3] else [])"

definition example_publisher :: CookbookPublisher where
  "example_publisher = \<lparr>publisher_pk = 7\<rparr>"

definition example_get_object :: "int \<Rightarrow> CookbookPublisher option" where
  "example_get_object pk = (if pk = 7 then Some example_publisher else None)"

definition example_artifact :: Artifact where
  "example_artifact = \<lparr>artifact_pk = 1, file_name = ''artifact/ab/cdef''\<rparr>"

definition example_metadata :: CookbookMetadata where
  "example_metadata = \<lparr>md_version = ''1.2.0'', md_dependencies = [(''other'', ''>=1.0'')]\<rparr>"

definition example_env :: collaborators where
  "example_env =
     \<lparr>get_resource = (\<lambda>uri. if uri = ''/artifacts/1/'' then Inr example_artifact
                            else Inl (Message ''URI not valid'')),
      from_cookbook_file = (\<lambda>file name.
         if file = ''artifact/ab/cdef'' \<and> name = ''mycookbook'' then Some example_metadata
         else None),
      field_errors = (\<lambda>data. None),
      get_success_headers = (\<lambda>data. [])\<rparr>"

definition rejecting_env :: collaborators where
  "rejecting_env =
     example_env\<lparr>field_errors :=
       (\<lambda>data. Some (Message ''The fields name, version must make a unique set.''))\<rparr>"

definition empty_db :: db where
  "empty_db = \<lparr>contents = [], content_artifacts = []\<rparr>"

definition example_request :: request_data where
  "example_request = [''artifact'' \<mapsto> ''/artifacts/1/'', ''name'' \<mapsto> ''mycookbook'']"

definition example_content :: CookbookPackageContent where
  "example_content =
     \<lparr>content_name = ''mycookbook'', content_version = ''1.2.0'',
      content_dependencies = [(''other'', ''>=1.0'')]\<rparr>"

section \<open>Auxiliary facts\<close>

lemmas msgs = msg_neither_def msg_both_def msg_no_version_def msg_required_def
  msg_no_metadata_def msg_version_def quote_def

lemmas examples = repo1_def repo2_def version1_def version2_def version3_def
  example_versions_def example_publisher_def example_get_object_def example_artifact_def
  example_metadata_def example_env_def rejecting_env_def empty_db_def example_request_def
  example_content_def

lemma msg_neither_both: "msg_neither \<noteq> msg_both"
  by (simp add: msgs)

lemma msg_no_version_neither: "msg_no_version \<noteq> msg_neither"
  by (simp add: msgs)

lemma msg_no_version_both: "msg_no_version \<noteq> msg_both"
  by (simp add: msgs)

lemma validate_Inr_has_version:
  "validate versions data = Inr d \<Longrightarrow> \<exists>rv. repository_version d = Some rv"
  by (auto simp: validate_def dict_update_def split: option.splits)

lemma is_valid_Inr_has_version:
  "is_valid f versions r = Inr d \<Longrightarrow> \<exists>rv. repository_version d = Some rv"
  by (auto simp: is_valid_def split: sum.splits dest: validate_Inr_has_version)

lemma validate_not_AttributeError: "validate versions data \<noteq> Inl AttributeError"
  by (auto simp: validate_def split: option.splits)

lemma is_valid_not_AttributeError: "is_valid f versions r \<noteq> Inl AttributeError"
  by (auto simp: is_valid_def validate_not_AttributeError split: sum.splits)

lemma create_body_failure_state:
  "fst (create_body env data d) = Inl e \<Longrightarrow> snd (create_body env data d) = d"
  by (auto simp: create_body_def content_save_def set_artifact_def Let_def
      split: option.splits sum.splits if_splits prod.splits)

text \<open>
  The two outcomes of an admission that has extracted the metadata and passed the
  comparison of the versions: the serializer accepts the data and the record is created,
  persisted and bound to the artifact, or it rejects them and nothing is persisted.
\<close>

lemma create_succeeds:
  assumes "data ''artifact'' = Some uri" and "get_resource env uri = Inr artifact"
    and "data ''name'' = Some name"
    and "from_cookbook_file env (file_name artifact) name = Some metadata"
    and "data ''version'' = None \<or> data ''version'' = Some (md_version metadata)"
    and "field_errors env (data(''version'' \<mapsto> md_version metadata)) = None"
  shows "create env data d =
           (Inr \<lparr>status = 201,
                 body = \<lparr>content_name = name, content_version = md_version metadata,
                         content_dependencies = md_dependencies metadata\<rparr>,
                 headers = get_success_headers env (data(''version'' \<mapsto> md_version metadata))\<rparr>,
            \<lparr>contents = contents d @
               [\<lparr>content_name = name, content_version = md_version metadata,
                 content_dependencies = md_dependencies metadata\<rparr>],
             content_artifacts = content_artifacts d @
               [(\<lparr>content_name = name, content_version = md_version metadata,
                  content_dependencies = md_dependencies metadata\<rparr>, artifact)]\<rparr>)"
  using assms
  by (auto simp: create_def transaction_atomic_def create_body_def content_is_valid_def
      content_save_def set_artifact_def Let_def)

lemma create_serializer_rejects:
  assumes "data ''artifact'' = Some uri" and "get_resource env uri = Inr artifact"
    and "data ''name'' = Some name"
    and "from_cookbook_file env (file_name artifact) name = Some metadata"
    and "data ''version'' = None \<or> data ''version'' = Some (md_version metadata)"
    and "field_errors env (data(''version'' \<mapsto> md_version metadata)) = Some errors"
  shows "create env data d = (Inl (ValidationError errors), d)"
  using assms
  by (auto simp: create_def transaction_atomic_def create_body_def content_is_valid_def)

lemma str_examples: "str 7 = ''7''" "str 13 = ''13''" "str 12 = ''12''"
  by code_simp+

section \<open>The publish target resolver\<close>

text \<open>
  Claim C4. The resolver raises the validation error with the "neither" message exactly
  when both \<open>repository\<close> and \<open>repository_version\<close> are absent, and the one with the
  "both" message exactly when both are present; a request naming exactly one target
  raises neither of the two.
\<close>

theorem validate_ambiguous:
  "(validate versions data = Inl (ValidationError (Message msg_neither))
      \<longleftrightarrow> repository data = None \<and> repository_version data = None) \<and>
   (validate versions data = Inl (ValidationError (Message msg_both))
      \<longleftrightarrow> repository data \<noteq> None \<and> repository_version data \<noteq> None)"
  using msg_neither_both msg_no_version_neither msg_no_version_both
  by (auto simp: validate_def split: option.splits)

theorem validate_ambiguous_witness:
  "validate example_versions \<lparr>repository = None, repository_version = None\<rparr>
     = Inl (ValidationError (Message msg_neither)) \<and>
   validate example_versions \<lparr>repository = Some repo1, repository_version = Some version1\<rparr>
     = Inl (ValidationError (Message msg_both))"
  using validate_ambiguous [of example_versions "\<lparr>repository = None, repository_version = None\<rparr>"]
    validate_ambiguous [of example_versions
      "\<lparr>repository = Some repo1, repository_version = Some version1\<rparr>"]
  by simp

text \<open>
  Claim C5. A request that names only \<open>repository_version\<close> is accepted and its data
  are returned as they are, whatever the versions of any repository.
\<close>

theorem validate_version_only:
  assumes "repository data = None" and "repository_version data = Some rv"
  shows "validate versions data = Inr data"
  using assms by (simp add: validate_def)

theorem validate_version_only_witness:
  "validate example_versions \<lparr>repository = None, repository_version = Some version2\<rparr>
     = Inr \<lparr>repository = None, repository_version = Some version2\<rparr>"
  using validate_version_only
    [of "\<lparr>repository = None, repository_version = Some version2\<rparr>" version2 example_versions]
  by simp

text \<open>
  Claim C6. A request that names only \<open>repository\<close>: when the repository has a version,
  the data returned hold its latest version (and the repository); when it has none, the
  resolver raises the validation error "Repository has no version available to publish".
\<close>

theorem validate_repository_only:
  assumes "repository data = Some repo" and "repository_version data = None"
  shows "(versions repo \<noteq> [] \<longrightarrow>
           validate versions data =
             Inr \<lparr>repository = Some repo, repository_version = Some (last (versions repo))\<rparr>) \<and>
         (versions repo = [] \<longrightarrow>
           validate versions data = Inl (ValidationError (Message msg_no_version)))"
  using assms
  by (auto simp: validate_def RepositoryVersion_latest_def dict_update_def split: list.splits)

theorem validate_repository_only_witness:
  "validate example_versions \<lparr>repository = Some repo1, repository_version = None\<rparr>
     = Inr \<lparr>repository = Some repo1, repository_version = Some version3\<rparr> \<and>
   validate example_versions \<lparr>repository = Some repo2, repository_version = None\<rparr>
     = Inl (ValidationError (Message msg_no_version))"
  using validate_repository_only
      [of "\<lparr>repository = Some repo1, repository_version = None\<rparr>" repo1 example_versions]
    validate_repository_only
      [of "\<lparr>repository = Some repo2, repository_version = None\<rparr>" repo2 example_versions]
  by (simp add: example_versions_def repo1_def repo2_def)

text \<open>
  Claim C10. Data that \<open>validate\<close> returns always hold a \<open>repository_version\<close>; for a
  request naming only the repository it is the latest version that was looked up. So
  \<open>publish\<close> never raises \<open>AttributeError\<close> on \<open>repository_version.repository\<close> or
  \<open>repository_version.pk\<close>.
\<close>

theorem validated_data_has_version:
  "(validate versions data = Inr d \<longrightarrow> repository_version d \<noteq> None) \<and>
   (repository data = Some repo \<and> repository_version data = None \<and>
    validate versions data = Inr d \<longrightarrow>
      repository_version d = RepositoryVersion_latest versions repo) \<and>
   fst (publish get_object to_internal_value versions request_data pk queue) \<noteq> Inl AttributeError"
proof (intro conjI impI)
  assume "validate versions data = Inr d"
  then show "repository_version d \<noteq> None"
    using validate_Inr_has_version by fastforce
next
  assume "repository data = Some repo \<and> repository_version data = None \<and>
    validate versions data = Inr d"
  then show "repository_version d = RepositoryVersion_latest versions repo"
    by (auto simp: validate_def dict_update_def split: option.splits)
next
  show "fst (publish get_object to_internal_value versions request_data pk queue)
          \<noteq> Inl AttributeError"
  proof (cases "is_valid to_internal_value versions request_data")
    case (Inl e)
    then have "e \<noteq> AttributeError"
      using is_valid_not_AttributeError [of to_internal_value versions request_data] by auto
    with Inl show ?thesis
      by (simp add: publish_def split: option.splits)
  next
    case (Inr v)
    then obtain rv where "repository_version v = Some rv"
      using is_valid_Inr_has_version [OF Inr] by blast
    with Inr show ?thesis
      by (simp add: publish_def apply_async_with_reservation_def Let_def split: option.splits)
  qed
qed

theorem validated_data_has_version_witness:
  "validate example_versions \<lparr>repository = Some repo1, repository_version = None\<rparr>
     = Inr \<lparr>repository = Some repo1, repository_version = Some version3\<rparr> \<and>
   repository_version \<lparr>repository = Some repo1, repository_version = Some version3\<rparr> \<noteq> None \<and>
   repository_version \<lparr>repository = Some repo1, repository_version = Some version3\<rparr>
     = RepositoryVersion_latest example_versions repo1 \<and>
   fst (publish example_get_object Inr example_versions
          \<lparr>repository = Some repo1, repository_version = None\<rparr> 7 []) \<noteq> Inl AttributeError"
proof -
  have h: "validate example_versions \<lparr>repository = Some repo1, repository_version = None\<rparr>
     = Inr \<lparr>repository = Some repo1, repository_version = Some version3\<rparr>"
    by (simp add: validate_def RepositoryVersion_latest_def dict_update_def
        example_versions_def repo1_def)
  show ?thesis
    using h validated_data_has_version
      [of example_versions "\<lparr>repository = Some repo1, repository_version = None\<rparr>"
          "\<lparr>repository = Some repo1, repository_version = Some version3\<rparr>" repo1
          example_get_object Inr "\<lparr>repository = Some repo1, repository_version = None\<rparr>" 7 "[]"]
    by (simp (no_asm_use)) blast
qed

section \<open>The publish dispatcher\<close>

text \<open>
  Claim C8. When the publisher exists and the request is valid, \<open>publish\<close> appends one
  task to the queue. The task reserves exactly the owning repository of the resolved
  repository version and the publisher, and its keyword arguments are the primary keys of
  the publisher and of the resolved repository version, as strings.
\<close>

theorem publish_enqueues:
  assumes "get_object pk = Some publisher"
    and "is_valid to_internal_value versions request_data = Inr validated_data"
  shows "\<exists>rv t. repository_version validated_data = Some rv \<and>
           publish get_object to_internal_value versions request_data pk queue =
             (Inr (OperationPostponedResponse t), queue @ [t]) \<and>
           reservations t = [RepositoryResource (rv_repository rv), PublisherResource publisher] \<and>
           kwargs t = [(''publisher_pk'', str (publisher_pk publisher)),
                       (''repository_version_pk'', str (rv_pk rv))]"
proof -
  obtain rv where rv: "repository_version validated_data = Some rv"
    using is_valid_Inr_has_version [OF assms(2)] by blast
  show ?thesis
    using assms rv by (simp add: publish_def apply_async_with_reservation_def Let_def)
qed

theorem publish_enqueues_witness:
  "example_get_object 7 = Some example_publisher \<and>
   is_valid Inr example_versions \<lparr>repository = Some repo1, repository_version = None\<rparr>
     = Inr \<lparr>repository = Some repo1, repository_version = Some version3\<rparr> \<and>
   publish example_get_object Inr example_versions
       \<lparr>repository = Some repo1, repository_version = None\<rparr> 7 []
     = (Inr (OperationPostponedResponse
          \<lparr>reservations = [RepositoryResource repo1, PublisherResource example_publisher],
           kwargs = [(''publisher_pk'', ''7''), (''repository_version_pk'', ''13'')]\<rparr>),
        [\<lparr>reservations = [RepositoryResource repo1, PublisherResource example_publisher],
          kwargs = [(''publisher_pk'', ''7''), (''repository_version_pk'', ''13'')]\<rparr>])"
proof -
  have g: "example_get_object 7 = Some example_publisher"
    by (simp add: example_get_object_def)
  have v: "is_valid Inr example_versions \<lparr>repository = Some repo1, repository_version = None\<rparr>
     = Inr \<lparr>repository = Some repo1, repository_version = Some version3\<rparr>"
    by (simp add: is_valid_def validate_def RepositoryVersion_latest_def dict_update_def
        example_versions_def repo1_def)
  show ?thesis
    using g v publish_enqueues
      [of example_get_object 7 example_publisher Inr example_versions
          "\<lparr>repository = Some repo1, repository_version = None\<rparr>"
          "\<lparr>repository = Some repo1, repository_version = Some version3\<rparr>" "[]"]
    by (auto simp: version3_def example_publisher_def str_examples)
qed

section \<open>Content admission\<close>

text \<open>
  Claim C9, as amended. The required fields are checked in order. A request without
  \<open>artifact\<close> fails with "This field is required" on \<open>artifact\<close>, whether or not it
  has a \<open>name\<close>; a request whose \<open>artifact\<close> is present and resolves to a stored
  artifact, and that has no \<open>name\<close>, fails with the same message on \<open>name\<close>. Nothing
  is persisted in either case.
\<close>

theorem create_required_fields:
  "(data ''artifact'' = None \<longrightarrow>
      create env data d = (Inl (ValidationError (Fields [(''artifact'', msg_required)])), d)) \<and>
   (data ''artifact'' = Some uri \<and> get_resource env uri = Inr artifact \<and> data ''name'' = None \<longrightarrow>
      create env data d = (Inl (ValidationError (Fields [(''name'', msg_required)])), d))"
  by (simp add: create_def transaction_atomic_def create_body_def)

theorem create_required_fields_witness:
  "create example_env Map.empty empty_db
     = (Inl (ValidationError (Fields [(''artifact'', msg_required)])), empty_db) \<and>
   create example_env [''name'' \<mapsto> ''mycookbook''] empty_db
     = (Inl (ValidationError (Fields [(''artifact'', msg_required)])), empty_db) \<and>
   create example_env [''artifact'' \<mapsto> ''/artifacts/1/''] empty_db
     = (Inl (ValidationError (Fields [(''name'', msg_required)])), empty_db)"
  using create_required_fields [of Map.empty example_env empty_db]
    create_required_fields [of "[''name'' \<mapsto> ''mycookbook'']" example_env empty_db]
    create_required_fields [of "[''artifact'' \<mapsto> ''/artifacts/1/'']" example_env empty_db
      "''/artifacts/1/''" example_artifact]
  by (simp add: example_env_def)

text \<open>
  The claim as worded, for any request that has an \<open>artifact\<close> and no \<open>name\<close>, fails
  where the artifact's URI does not resolve: \<open>get_resource\<close> is called before
  \<open>data['name']\<close> is read, so the request is rejected with the resolver's error and the
  missing \<open>name\<close> is not reported.
\<close>

theorem create_required_fields_counterexample:
  "[''artifact'' \<mapsto> ''/bogus/''] ''artifact'' = Some ''/bogus/'' \<and>
   [''artifact'' \<mapsto> ''/bogus/''] ''name'' = (None :: string option) \<and>
   create example_env [''artifact'' \<mapsto> ''/bogus/''] empty_db
     = (Inl (ValidationError (Message ''URI not valid'')), empty_db) \<and>
   create example_env [''artifact'' \<mapsto> ''/bogus/''] empty_db
     \<noteq> (Inl (ValidationError (Fields [(''name'', msg_required)])), empty_db)"
  by (simp add: create_def transaction_atomic_def create_body_def example_env_def)

text \<open>
  Claim C7. When the artifact and the name are supplied and the extraction of the
  metadata finds no descriptor for that name in the archive, the admission fails with
  "No metadata.json found in cookbook tar" on \<open>artifact\<close>, whatever else the request
  declares, and nothing is persisted.
\<close>

theorem create_no_metadata:
  assumes "data ''artifact'' = Some uri" and "get_resource env uri = Inr artifact"
    and "data ''name'' = Some name"
    and "from_cookbook_file env (file_name artifact) name = None"
  shows "create env data d = (Inl (ValidationError (Fields [(''artifact'', msg_no_metadata)])), d)"
  using assms by (simp add: create_def transaction_atomic_def create_body_def)

theorem create_no_metadata_witness:
  "create example_env
     [''artifact'' \<mapsto> ''/artifacts/1/'', ''name'' \<mapsto> ''nginx'', ''version'' \<mapsto> ''1.2.0'']
     empty_db
     = (Inl (ValidationError (Fields [(''artifact'', msg_no_metadata)])), empty_db)"
  using create_no_metadata
    [of "[''artifact'' \<mapsto> ''/artifacts/1/'', ''name'' \<mapsto> ''nginx'', ''version'' \<mapsto> ''1.2.0'']"
        "''/artifacts/1/''" example_env example_artifact "''nginx''" empty_db]
  by (simp add: example_env_def example_artifact_def)



text \<open>
  Claim C3. The admission is atomic: whenever \<open>create\<close> raises, the persistent state
  after the call is the state before it. The body of \<open>create\<close> itself has written
  nothing when it raises, so there is nothing for the transaction to roll back.
\<close>

theorem create_atomic:
  assumes "fst (create env data d) = Inl e"
  shows "snd (create env data d) = d \<and> fst (create_body env data d) = Inl e \<and>
         snd (create_body env data d) = d"
proof -
  have b: "fst (create_body env data d) = Inl e"
    using assms by (auto simp: create_def transaction_atomic_def split: prod.splits sum.splits)
  moreover have "snd (create env data d) = d"
    using assms by (auto simp: create_def transaction_atomic_def split: prod.splits sum.splits)
  ultimately show ?thesis
    using create_body_failure_state by blast
qed

theorem create_atomic_witness:
  "fst (create rejecting_env example_request empty_db)
     = Inl (ValidationError (Message ''The fields name, version must make a unique set.'')) \<and>
   snd (create rejecting_env example_request empty_db) = empty_db \<and>
   snd (create_body rejecting_env example_request empty_db) = empty_db"
proof -
  have h: "fst (create rejecting_env example_request empty_db)
     = Inl (ValidationError (Message ''The fields name, version must make a unique set.''))"
    by (simp add: create_def transaction_atomic_def create_body_def content_is_valid_def
        rejecting_env_def example_env_def example_artifact_def example_request_def
        example_metadata_def)
  show ?thesis
    using h create_atomic [OF h] by simp
qed

text \<open>
  Claim C1. Every admission that succeeds has extracted the metadata of the artifact the
  request names, under the declared name; the request declared no \<open>version\<close> or the
  extracted one; and the content record created has the version and the dependencies
  of the extracted metadata and the declared name. The record is persisted and bound to
  the artifact.
\<close>

theorem create_version_from_metadata:
  assumes "create env data d = (Inr r, d')"
  shows "\<exists>uri artifact name metadata.
           data ''artifact'' = Some uri \<and> get_resource env uri = Inr artifact \<and>
           data ''name'' = Some name \<and>
           from_cookbook_file env (file_name artifact) name = Some metadata \<and>
           (data ''version'' = None \<or> data ''version'' = Some (md_version metadata)) \<and>
           content_version (body r) = md_version metadata \<and>
           content_dependencies (body r) = md_dependencies metadata \<and>
           content_name (body r) = name \<and>
           contents d' = contents d @ [body r] \<and>
           content_artifacts d' = content_artifacts d @ [(body r, artifact)]"
  using assms
  by (auto simp: create_def transaction_atomic_def create_body_def content_is_valid_def
      content_save_def set_artifact_def Let_def
      split: option.splits sum.splits if_splits prod.splits)

theorem create_version_from_metadata_witness:
  "create example_env example_request empty_db
     = (Inr \<lparr>status = 201, body = example_content, headers = []\<rparr>,
        \<lparr>contents = [example_content],
         content_artifacts = [(example_content, example_artifact)]\<rparr>) \<and>
   content_version example_content = md_version example_metadata \<and>
   content_dependencies example_content = md_dependencies example_metadata"
proof -
  have h: "create example_env example_request empty_db
     = (Inr \<lparr>status = 201, body = example_content, headers = []\<rparr>,
        \<lparr>contents = [example_content],
         content_artifacts = [(example_content, example_artifact)]\<rparr>)"
    by (simp add: create_def transaction_atomic_def create_body_def content_is_valid_def
        content_save_def set_artifact_def Let_def example_env_def example_artifact_def
        example_request_def example_metadata_def example_content_def empty_db_def)
  show ?thesis
    using h create_version_from_metadata [OF h]
    by (auto simp: example_env_def example_request_def split: if_splits)
qed

end
